theory Spec2Isabelle
  imports Main "HOL-Library.Sublist"
begin

section \<open>The document handler of docs/main.go\<close>

text \<open>
  Go strings and byte slices are sequences of bytes: both are modelled as \<open>string\<close>
  (a list of \<open>char\<close>, one \<open>char\<close> per byte), so that \<open>string(doc)\<close> and
  \<open>[]byte(s)\<close> are the identity.
\<close>

subsection \<open>The line scanner used by firstLine (package bufio)\<close>

definition newline :: char where
  "newline = CHR 0x0A"

definition carriage_return :: char where
  "carriage_return = CHR 0x0D"

text \<open>\<open>MaxScanTokenSize\<close> and \<open>startBufSize\<close> of package bufio.\<close>

definition MaxScanTokenSize :: nat where
  "MaxScanTokenSize = 64 * 1024"

definition startBufSize :: nat where
  "startBufSize = 4096"

text \<open>\<open>bytes.IndexByte\<close>: the index of the first occurrence, \<open>None\<close> for Go's -1.\<close>

definition IndexByte :: "string \<Rightarrow> char \<Rightarrow> nat option" where
  "IndexByte b c = (if c \<in> set b then Some (length (takeWhile (\<lambda>x. x \<noteq> c) b)) else None)"

text \<open>\<open>dropCR\<close> drops one terminal carriage return from the data.\<close>

definition dropCR :: "string \<Rightarrow> string" where
  "dropCR data =
     (if data \<noteq> [] \<and> last data = carriage_return then butlast data else data)"

text \<open>
  \<open>bufio.ScanLines\<close>, the default split function of a Scanner. It returns the number
  of bytes to advance and the token (\<open>None\<close> is Go's nil token: more data is asked for).
  It never returns an error.
\<close>

definition ScanLines :: "string \<Rightarrow> bool \<Rightarrow> nat \<times> string option" where
  "ScanLines data atEOF =
     (if atEOF \<and> data = [] then (0, None)
      else case IndexByte data newline of
             Some i \<Rightarrow> (i + 1, Some (dropCR (take i data)))
           | None \<Rightarrow> if atEOF then (length data, Some (dropCR data)) else (0, None))"

text \<open>
  The first call of \<open>Scanner.Scan\<close> on a scanner made by \<open>bufio.NewScanner\<close> over
  \<open>bytes.NewReader(input)\<close>. Until the first token is found the scanner's \<open>start\<close>
  is 0, so its state is the length \<open>cap\<close> of its buffer, the number \<open>end\<close> of bytes
  buffered (the buffer holds \<open>take end input\<close>, the reader stands at \<open>end\<close>) and
  whether \<open>s.err\<close> is set. The loop is the loop of \<open>Scan\<close>:
  \<^item> with data buffered or an error set, the split function is tried; a token ends the
    scan with \<open>true\<close>;
  \<^item> with an error set and no token, the scan ends with \<open>false\<close>;
  \<^item> a full buffer is doubled (from \<open>startBufSize\<close>), up to \<open>MaxScanTokenSize\<close>
    (\<open>resize\<close> is the length of the buffer after this step); a full buffer of that
    size ends the scan with \<open>ErrTooLong\<close> and no token;
  \<^item> then the reader is read: \<open>bytes.Reader.Read\<close> returns \<open>io.EOF\<close> when nothing
    is left, and copies what fits otherwise. A read of no bytes without an error is
    repeated by \<open>Scan\<close> until it gives up with \<open>io.ErrNoProgress\<close>; the buffer is
    never full at a read, so that branch is not reached from the initial state.
  The result is the value returned by \<open>Scan\<close> and the token left in the scanner.
\<close>

definition resize :: "nat \<Rightarrow> nat \<Rightarrow> nat" where
  "resize cap end =
     (if end = cap
      then min (if 2 * cap = 0 then startBufSize else 2 * cap) MaxScanTokenSize
      else cap)"

function Scan :: "string \<Rightarrow> nat \<Rightarrow> nat \<Rightarrow> bool \<Rightarrow> bool \<times> string option" where
  "Scan input cap end err =
     (case (if 0 < end \<or> err then snd (ScanLines (take end input) err) else None) of
        Some token \<Rightarrow> (True, Some token)
      | None \<Rightarrow>
          if err then (False, None)
          else if end = cap \<and> MaxScanTokenSize \<le> cap then (False, None)
          else
            let cap' = resize cap end;
                n = min (cap' - end) (length input - end)
            in if length input \<le> end then Scan input cap' end True
               else if n = 0 then Scan input cap' end True
               else Scan input cap' (end + n) False)"
  by pat_completeness auto
termination
  by (relation "measure (\<lambda>(input, cap, end, err). if err then 0 else 1 + (length input - end))")
     (auto simp: Let_def resize_def MaxScanTokenSize_def startBufSize_def split: if_splits)

declare Scan.simps [simp del]

text \<open>
  \<open>firstLine\<close>: a new scanner (empty buffer, no error), one call of \<open>Scan\<close> whose
  result is ignored, and \<open>Text\<close>, the token as a string (the empty string for nil).
\<close>

definition firstLine :: "string \<Rightarrow> string" where
  "firstLine b = (case snd (Scan b 0 0 False) of None \<Rightarrow> [] | Some token \<Rightarrow> token)"


subsection \<open>Formatting a time (package time)\<close>

text \<open>
  A \<open>time.Time\<close> is an instant with a location. The model keeps the instant as Unix
  seconds and, of the location, what \<open>Format\<close> reads from it: the abbreviation and the
  offset (seconds east of UTC) of the zone in effect at that instant. Nanoseconds are left
  out: the layout used here prints none.
\<close>

record Time =
  unixSec :: int
  zoneName :: string
  zoneOffset :: int

definition UTC :: "int \<Rightarrow> Time" where
  "UTC s = \<lparr>unixSec = s, zoneName = ''UTC'', zoneOffset = 0\<rparr>"

text \<open>The layout constant \<open>time.RFC850\<close>.\<close>

definition RFC850 :: string where
  "RFC850 = ''Monday, 02-Jan-06 15:04:05 MST''"

definition longDayNames :: "string list" where
  "longDayNames =
     [''Sunday'', ''Monday'', ''Tuesday'', ''Wednesday'', ''Thursday'', ''Friday'', ''Saturday'']"

definition longMonthNames :: "string list" where
  "longMonthNames =
     [''January'', ''February'', ''March'', ''April'', ''May'', ''June'', ''July'',
      ''August'', ''September'', ''October'', ''November'', ''December'']"

definition daysBefore :: "int list" where
  "daysBefore = [0, 31, 59, 90, 120, 151, 181, 212, 243, 273, 304, 334, 365]"

definition isLeap :: "int \<Rightarrow> bool" where
  "isLeap year = (year mod 4 = 0 \<and> (year mod 100 \<noteq> 0 \<or> year mod 400 = 0))"

text \<open>
  \<open>absDate\<close>: year, month (1 to 12) and day of the month of a day number. Go counts the
  days from 1 January of a year that starts a 400-year cycle and is far enough in the
  past for the count to be unsigned; here the days are counted from 1 January 1970, moved
  to 1 January of year 1 (which starts a cycle as well), and the integer division is the
  flooring one, so that the cycles are cut off in the same way for every day.
\<close>

definition absDate :: "int \<Rightarrow> int \<times> int \<times> int" where
  "absDate days =
     (let d0 = days + 719162;
          n400 = d0 div 146097;
          d1 = d0 - 146097 * n400;
          c100 = d1 div 36524;
          n100 = c100 - c100 div 4;
          d2 = d1 - 36524 * n100;
          n4 = d2 div 1461;
          d3 = d2 - 1461 * n4;
          c1 = d3 div 365;
          n1 = c1 - c1 div 4;
          yday = d3 - 365 * n1;
          year = 400 * n400 + 100 * n100 + 4 * n4 + n1 + 1
      in if isLeap year \<and> yday = 31 + 29 - 1 then (year, 2, 29)
         else
           let day = (if isLeap year \<and> yday > 31 + 29 - 1 then yday - 1 else yday);
               m = day div 31;
               end = daysBefore ! nat (m + 1);
               month = (if day \<ge> end then m + 1 else m);
               begin = (if day \<ge> end then end else daysBefore ! nat m)
           in (year, month + 1, day - begin + 1))"

text \<open>The fields of a time in its zone: the seconds are shifted by the offset first.\<close>

definition localSec :: "Time \<Rightarrow> int" where
  "localSec t = unixSec t + zoneOffset t"

definition Year :: "Time \<Rightarrow> int" where
  "Year t = fst (absDate (localSec t div 86400))"

definition Month :: "Time \<Rightarrow> int" where
  "Month t = fst (snd (absDate (localSec t div 86400)))"

definition Day :: "Time \<Rightarrow> int" where
  "Day t = snd (snd (absDate (localSec t div 86400)))"

definition Hour :: "Time \<Rightarrow> int" where
  "Hour t = (localSec t mod 86400) div 3600"

definition Minute :: "Time \<Rightarrow> int" where
  "Minute t = (localSec t mod 3600) div 60"

definition Second :: "Time \<Rightarrow> int" where
  "Second t = localSec t mod 60"

text \<open>\<open>Weekday\<close>: Sunday is 0; 1 January 1970 was a Thursday.\<close>

definition Weekday :: "Time \<Rightarrow> int" where
  "Weekday t = (localSec t div 86400 + 4) mod 7"

text \<open>Decimal digits of a natural number, and of a Go int (\<open>strconv.Itoa\<close>).\<close>

fun digits :: "nat \<Rightarrow> string" where
  "digits n =
     (if n < 10 then [''0123456789'' ! n] else digits (n div 10) @ [''0123456789'' ! (n mod 10)])"

definition Itoa :: "int \<Rightarrow> string" where
  "Itoa i = (if i < 0 then CHR ''-'' # digits (nat (- i)) else digits (nat i))"

text \<open>\<open>appendInt\<close>: the decimal form of an integer, padded with zeros to the width.\<close>

definition appendInt :: "int \<Rightarrow> nat \<Rightarrow> string" where
  "appendInt x width =
     (let ds = digits (nat \<bar>x\<bar>);
          padded = replicate (width - length ds) (CHR ''0'') @ ds
      in if x < 0 then CHR ''-'' # padded else padded)"

text \<open>
  The elements of a layout. \<open>nextStdChunk\<close> finds the first one in a layout and returns
  the text before it, the element and the text after it. The model has the elements that
  start with \<open>J\<close>, \<open>M\<close> and the digits \<open>0\<close> to \<open>5\<close>; the elements of Go that start with
  \<open>_\<close>, \<open>P\<close>, \<open>p\<close>, \<open>-\<close>, \<open>Z\<close>, \<open>.\<close> or \<open>,\<close> (padding with spaces, AM and PM, numeric
  zones, fractions of a second) and the day of the year \<open>002\<close> are not modelled: those
  characters are copied as text, which is what Go does with them in \<open>RFC850\<close>, where
  \<open>-\<close> is never followed by \<open>07\<close> and \<open>,\<close> is followed by a space.
\<close>

datatype std =
  stdLongMonth | stdMonth | stdNumMonth | stdZeroMonth
  | stdLongWeekDay | stdWeekDay | stdDay | stdZeroDay
  | stdHour | stdHour12 | stdZeroHour12
  | stdMinute | stdZeroMinute | stdSecond | stdZeroSecond
  | stdLongYear | stdYear | stdTZ

definition startsWithLowerCase :: "string \<Rightarrow> bool" where
  "startsWithLowerCase str =
     (case str of [] \<Rightarrow> False
      | c # _ \<Rightarrow> (97::nat) \<le> of_char c \<and> (of_char c :: nat) \<le> 122)"

definition std0x :: "std list" where
  "std0x = [stdZeroMonth, stdZeroDay, stdZeroHour12, stdZeroMinute, stdZeroSecond, stdYear]"

text \<open>The body of the loop of \<open>nextStdChunk\<close>, on the layout from position \<open>i\<close> on.\<close>

definition stdChunkAt :: "string \<Rightarrow> (std \<times> string) option" where
  "stdChunkAt l =
     (case l of
        [] \<Rightarrow> None
      | c # cs \<Rightarrow>
          if c = CHR ''J'' then
            (if take 3 l = ''Jan'' then
               (if take 7 l = ''January'' then Some (stdLongMonth, drop 7 l)
                else if \<not> startsWithLowerCase (drop 3 l) then Some (stdMonth, drop 3 l)
                else None)
             else None)
          else if c = CHR ''M'' then
            (if take 3 l = ''Mon'' then
               (if take 6 l = ''Monday'' then Some (stdLongWeekDay, drop 6 l)
                else if \<not> startsWithLowerCase (drop 3 l) then Some (stdWeekDay, drop 3 l)
                else None)
             else if take 3 l = ''MST'' then Some (stdTZ, drop 3 l)
             else None)
          else if c = CHR ''0'' then
            (case cs of
               [] \<Rightarrow> None
             | d # rest \<Rightarrow>
                 if (49::nat) \<le> of_char d \<and> (of_char d :: nat) \<le> 54
                 then Some (std0x ! (of_char d - 49), rest)
                 else None)
          else if c = CHR ''1'' then
            (if take 2 l = ''15'' then Some (stdHour, drop 2 l) else Some (stdNumMonth, cs))
          else if c = CHR ''2'' then
            (if take 4 l = ''2006'' then Some (stdLongYear, drop 4 l) else Some (stdDay, cs))
          else if c = CHR ''3'' then Some (stdHour12, cs)
          else if c = CHR ''4'' then Some (stdMinute, cs)
          else if c = CHR ''5'' then Some (stdSecond, cs)
          else None)"

fun nextStdChunk :: "string \<Rightarrow> string \<times> std option \<times> string" where
  "nextStdChunk [] = ([], None, [])"
| "nextStdChunk (c # cs) =
     (case stdChunkAt (c # cs) of
        Some (s, suf) \<Rightarrow> ([], Some s, suf)
      | None \<Rightarrow> (case nextStdChunk cs of (pre, s, suf) \<Rightarrow> (c # pre, s, suf)))"

text \<open>What \<open>AppendFormat\<close> appends for one element of the layout.\<close>

definition formatStd :: "Time \<Rightarrow> std \<Rightarrow> string" where
  "formatStd t s =
     (case s of
        stdYear \<Rightarrow> appendInt (\<bar>Year t\<bar> mod 100) 2
      | stdLongYear \<Rightarrow> appendInt (Year t) 4
      | stdMonth \<Rightarrow> take 3 (longMonthNames ! nat (Month t - 1))
      | stdLongMonth \<Rightarrow> longMonthNames ! nat (Month t - 1)
      | stdNumMonth \<Rightarrow> appendInt (Month t) 0
      | stdZeroMonth \<Rightarrow> appendInt (Month t) 2
      | stdWeekDay \<Rightarrow> take 3 (longDayNames ! nat (Weekday t))
      | stdLongWeekDay \<Rightarrow> longDayNames ! nat (Weekday t)
      | stdDay \<Rightarrow> appendInt (Day t) 0
      | stdZeroDay \<Rightarrow> appendInt (Day t) 2
      | stdHour \<Rightarrow> appendInt (Hour t) 2
      | stdHour12 \<Rightarrow> appendInt (if Hour t mod 12 = 0 then 12 else Hour t mod 12) 0
      | stdZeroHour12 \<Rightarrow> appendInt (if Hour t mod 12 = 0 then 12 else Hour t mod 12) 2
      | stdMinute \<Rightarrow> appendInt (Minute t) 0
      | stdZeroMinute \<Rightarrow> appendInt (Minute t) 2
      | stdSecond \<Rightarrow> appendInt (Second t) 0
      | stdZeroSecond \<Rightarrow> appendInt (Second t) 2
      | stdTZ \<Rightarrow>
          if zoneName t \<noteq> [] then zoneName t
          else
            let zone = (if zoneOffset t < 0 then - ((- zoneOffset t) div 60)
                        else zoneOffset t div 60)
            in (if zone < 0 then ''-'' else ''+'')
               @ appendInt (\<bar>zone\<bar> div 60) 2 @ appendInt (\<bar>zone\<bar> mod 60) 2)"

text \<open>
  \<open>Time.Format\<close>: the text before each element is copied, the element is formatted, and
  the rest of the layout is processed; the layout ends with the text after its last
  element. (The zone offset is divided by 60 as Go divides, towards zero.)
\<close>

function Format :: "Time \<Rightarrow> string \<Rightarrow> string" where
  "Format t layout =
     (if layout = [] then []
      else case nextStdChunk layout of
             (pre, None, suf) \<Rightarrow> pre
           | (pre, Some s, suf) \<Rightarrow> pre @ formatStd t s @ Format t suf)"
  by pat_completeness auto
termination
proof (relation "measure (\<lambda>(t, layout). length layout)", goal_cases)
  case 1
  show ?case by simp
next
  case (2 t layout x y xa ya x2)
  have at: "length suf < length l" if "stdChunkAt l = Some (c, suf)" for l c suf
    using that by (auto simp: stdChunkAt_def split: list.splits if_splits)
  have "length suf < length l" if "nextStdChunk l = (p, Some c, suf)" for l p c suf
    using that
  proof (induction l arbitrary: p)
    case Nil
    then show ?case by simp
  next
    case (Cons a l)
    then show ?case
      by (fastforce split: option.splits prod.splits dest: at)
  qed
  with 2 have "length ya < length layout"
    by metis
  then show ?case
    by simp
qed

declare Format.simps [simp del]

subsection \<open>Errors, the document store, requests and responses\<close>

text \<open>
  A Go \<open>error\<close> is a value; \<open>None\<close> of \<open>error option\<close> is the nil error. Package
  awsdocstore is not part of the sources, so the failures of the store are
  modelled from the spec: \<open>NotFound\<close> (the identifier has no stored document) and
  \<open>StorageUnavailable\<close> (transport or backend failure). The other constructors are
  the failures of reading a document, of parsing a template and of executing it, each
  with its message.
\<close>

datatype error =
  NotFound
  | StorageUnavailable
  | ReadError string
  | ParseError string
  | ExecError string

text \<open>
  The metadata of a revision, \<open>rev.Metadata()\<close>, of which the handler reads the fields
  \<open>Timestamp\<close> and \<open>Id\<close>.
\<close>

record RevMetadata =
  md_Timestamp :: Time
  md_Id :: int

text \<open>
  A revision returned by \<open>GetDoc\<close> is a reader with metadata. \<open>ReadAll\<close> is what
  \<open>ioutil.ReadAll\<close> makes of the reader: all its bytes, or an error.
\<close>

record Revision =
  ReadAll :: "error + string"
  Metadata :: RevMetadata

text \<open>The part of \<open>events.APIGatewayProxyRequest\<close> that the handler reads.\<close>

record Request =
  PathParameters :: "string \<rightharpoonup> string"

text \<open>
  \<open>Response\<close>, with the fields of \<open>events.APIGatewayProxyResponse\<close> that the handler
  sets; \<open>Response0\<close> is its zero value, the value of the fields a composite literal
  leaves out (a nil map has no entries).
\<close>

record Response =
  StatusCode :: int
  Headers :: "string \<rightharpoonup> string"
  Body :: string
  IsBase64Encoded :: bool

definition Response0 :: Response where
  "Response0 = \<lparr>StatusCode = 0, Headers = Map.empty, Body = [], IsBase64Encoded = False\<rparr>"

record docMetadata =
  Title :: string
  DocBody :: string
  Timestamp :: string
  Version :: int

definition tmplDocName :: string where
  "tmplDocName = ''doc-template.html''"

subsection \<open>The collaborators of the handler\<close>

text \<open>
  The handler works through the store \<open>ds\<close>, the markdown library and package
  text/template. They are parameters of the model: \<open>ds_GetDoc\<close> is \<open>ds.GetDoc\<close>,
  \<open>markdown_ToHTML\<close> is \<open>markdown.ToHTML(doc, nil, nil)\<close>, \<open>template_Parse\<close> is
  \<open>template.New("docPage").Parse\<close> and \<open>template_Execute\<close> is \<open>tmpl.Execute\<close>, which
  returns what it wrote to the buffer and its error. The type \<open>'t\<close> is the type of
  parsed templates.
\<close>

record 't env =
  ds_GetDoc :: "string \<Rightarrow> error + Revision"
  markdown_ToHTML :: "string \<Rightarrow> string"
  template_Parse :: "string \<Rightarrow> error + 't"
  template_Execute :: "'t \<Rightarrow> docMetadata \<Rightarrow> string \<times> error option"

text \<open>
  The calls a request makes to its collaborators, to the classification test
  \<open>strings.Contains\<close> and to the log, in the order in which they are made; every
  stage of the pipeline leaves its call here. \<open>CallReadAll\<close> names the document whose
  revision is read, \<open>CallContains\<close> has the two arguments of \<open>strings.Contains\<close>.
\<close>

datatype call =
  CallGetDoc string
  | CallReadAll string
  | CallContains string string
  | CallToHTML string
  | CallParse string
  | CallExecute docMetadata
  | CallPrintf string error

text \<open>\<open>strings.Contains\<close>: the substring occurs in the string.\<close>

definition strings_Contains :: "string \<Rightarrow> string \<Rightarrow> bool" where
  "strings_Contains s substr = sublist substr s"

subsection \<open>getTemplate and Handler\<close>

text \<open>
  \<open>getTemplate\<close> returns the parsed template or the error of the first step that
  fails, and the calls it made.
\<close>

definition getTemplate :: "'t env \<Rightarrow> (error + 't) \<times> call list" where
  "getTemplate env =
     (case ds_GetDoc env tmplDocName of
        Inl err \<Rightarrow> (Inl err, [CallGetDoc tmplDocName])
      | Inr tmplDoc \<Rightarrow>
          (case ReadAll tmplDoc of
             Inl err \<Rightarrow> (Inl err, [CallGetDoc tmplDocName, CallReadAll tmplDocName])
           | Inr tmplBytes \<Rightarrow>
               (template_Parse env tmplBytes,
                [CallGetDoc tmplDocName, CallReadAll tmplDocName, CallParse tmplBytes])))"

text \<open>
  \<open>request.PathParameters["docId"]\<close>: a key that is absent reads as the empty string.
\<close>

definition request_docId :: "Request \<Rightarrow> string" where
  "request_docId request =
     (case PathParameters request ''docId'' of None \<Rightarrow> [] | Some v \<Rightarrow> v)"

text \<open>
  \<open>Handler\<close> returns its response, its error and the calls it made. The test
  \<open>strings.Contains(docId, ".")\<close> is made after the document has been fetched and
  read, and its call is recorded in both of its branches.
\<close>

definition Handler :: "'t env \<Rightarrow> Request \<Rightarrow> (Response \<times> error option) \<times> call list" where
  "Handler env request =
     (let docId = request_docId request
      in case ds_GetDoc env docId of
           Inl err \<Rightarrow>
             ((Response0\<lparr>StatusCode := 404\<rparr>, None),
              [CallGetDoc docId, CallPrintf ''GetDoc error: %v'' err])
         | Inr rev' \<Rightarrow>
             (case ReadAll rev' of
                Inl err \<Rightarrow>
                  ((Response0\<lparr>StatusCode := 500\<rparr>, Some err),
                   [CallGetDoc docId, CallReadAll docId, CallPrintf ''ReadAll error: %v'' err])
              | Inr doc \<Rightarrow>
                  (if strings_Contains docId ''.'' then
                     ((\<lparr>StatusCode = 200,
                        Headers = Map.empty(''Content-Type'' \<mapsto> ''text/html''),
                        Body = doc,
                        IsBase64Encoded = False\<rparr>, None),
                      [CallGetDoc docId, CallReadAll docId, CallContains docId ''.''])
                   else
                     (let parsed = markdown_ToHTML env doc;
                          calls = [CallGetDoc docId, CallReadAll docId,
                                   CallContains docId ''.'', CallToHTML doc]
                      in case getTemplate env of
                           (Inl err, tcalls) \<Rightarrow>
                             ((Response0\<lparr>StatusCode := 500\<rparr>, Some err), calls @ tcalls)
                         | (Inr tmpl, tcalls) \<Rightarrow>
                             (let meta = \<lparr>Title = firstLine doc,
                                          DocBody = parsed,
                                          Timestamp = Format (md_Timestamp (Metadata rev')) RFC850,
                                          Version = md_Id (Metadata rev')\<rparr>;
                                  calls' = calls @ tcalls @ [CallExecute meta]
                              in (case template_Execute env tmpl meta of
                                    (b, Some err) \<Rightarrow>
                                      ((Response0\<lparr>StatusCode := 500\<rparr>, Some err), calls')
                                  | (b, None) \<Rightarrow>
                                      ((\<lparr>StatusCode = 200,
                                         Headers = Map.empty(''Content-Type'' \<mapsto> ''text/html''),
                                         Body = b,
                                         IsBase64Encoded = False\<rparr>, None),
                                       calls')))))))"

subsection \<open>Executing a template (package text/template)\<close>

text \<open>
  The handler passes the template through as it comes from \<open>Parse\<close>. For the
  composition of a page the parse tree is modelled for the templates made of text and of
  actions that are one chain of fields: \<open>TextNode\<close> is text outside the delimiters,
  \<open>FieldNode f fs\<close> is the action \<open>{{.f}}\<close>, or \<open>{{.f.g}}\<close> with more names \<open>fs\<close>.
  The other actions of text/template (pipelines, variables, \<open>if\<close>, \<open>range\<close>, \<open>with\<close>,
  \<open>define\<close>) are not modelled.
\<close>

datatype node =
  TextNode string
  | FieldNode string "string list"

text \<open>The values that a field of \<open>docMetadata\<close> holds.\<close>

datatype val =
  StringVal string
  | IntVal int

text \<open>
  \<open>evalField\<close> on the struct: the field of that name, and an error for a name that is
  not a field of \<open>docMetadata\<close>, which has no methods.
\<close>

definition evalField :: "docMetadata \<Rightarrow> string \<Rightarrow> error + val" where
  "evalField meta fieldName =
     (if fieldName = ''Title'' then Inr (StringVal (Title meta))
      else if fieldName = ''DocBody'' then Inr (StringVal (DocBody meta))
      else if fieldName = ''Timestamp'' then Inr (StringVal (Timestamp meta))
      else if fieldName = ''Version'' then Inr (IntVal (Version meta))
      else Inl (ExecError (''can't evaluate field '' @ fieldName @ '' in type main.docMetadata'')))"

text \<open>The rest of a chain: a string or an int has no field to evaluate.\<close>

fun evalFieldChain :: "val \<Rightarrow> string list \<Rightarrow> error + val" where
  "evalFieldChain v [] = Inr v"
| "evalFieldChain (StringVal str) (fieldName # fs) =
     Inl (ExecError (''can't evaluate field '' @ fieldName @ '' in type string''))"
| "evalFieldChain (IntVal i) (fieldName # fs) =
     Inl (ExecError (''can't evaluate field '' @ fieldName @ '' in type int''))"

text \<open>\<open>printValue\<close>: \<open>fmt.Fprint\<close> of the value, a string as it is and an int in decimal.\<close>

definition printValue :: "val \<Rightarrow> string" where
  "printValue v = (case v of StringVal str \<Rightarrow> str | IntVal i \<Rightarrow> Itoa i)"

text \<open>
  \<open>walk\<close> writes the nodes to the buffer in order and stops at the first error; what
  was written before stays in the buffer.
\<close>

fun walk :: "docMetadata \<Rightarrow> node list \<Rightarrow> string \<Rightarrow> string \<times> error option" where
  "walk meta [] b = (b, None)"
| "walk meta (TextNode txt # nodes) b = walk meta nodes (b @ txt)"
| "walk meta (FieldNode f fs # nodes) b =
     (case evalField meta f of
        Inl err \<Rightarrow> (b, Some err)
      | Inr v \<Rightarrow>
          (case evalFieldChain v fs of
             Inl err \<Rightarrow> (b, Some err)
           | Inr v' \<Rightarrow> walk meta nodes (b @ printValue v')))"

definition Execute :: "node list \<Rightarrow> docMetadata \<Rightarrow> string \<times> error option" where
  "Execute tmpl meta = walk meta tmpl []"

text \<open>
  For the properties of \<open>Execute\<close>: what a node writes when it is executed, and the
  nodes that execute without an error, which are the text nodes and the actions that
  name one field of \<open>docMetadata\<close> and nothing after it.
\<close>

definition node_output :: "docMetadata \<Rightarrow> node \<Rightarrow> string" where
  "node_output meta n =
     (case n of
        TextNode txt \<Rightarrow> txt
      | FieldNode f fs \<Rightarrow> (case evalField meta f of Inl err \<Rightarrow> [] | Inr v \<Rightarrow> printValue v))"

definition node_ok :: "node \<Rightarrow> bool" where
  "node_ok n =
     (case n of
        TextNode txt \<Rightarrow> True
      | FieldNode f fs \<Rightarrow>
          f \<in> set [''Title'', ''DocBody'', ''Timestamp'', ''Version''] \<and> fs = [])"

subsection \<open>An example store\<close>

text \<open>
  The documents of the scenarios of the spec: a raw document \<open>notes.txt\<close>, a markdown
  document \<open>intro\<close> with revision 3 of 2021-05-04T10:00:00 UTC, the page template, and
  a document whose content cannot be read. Every other identifier has no document.
  \<open>revision\<close> makes a revision of that time from what reading it gives and its version.
\<close>

definition example_template_source :: string where
  "example_template_source =
     ''<title>{{.Title}}</title>{{.DocBody}}v{{.Version}} {{.Timestamp}}''"

definition example_template :: "node list" where
  "example_template =
     [TextNode ''<title>'', FieldNode ''Title'' [], TextNode ''</title>'',
      FieldNode ''DocBody'' [], TextNode ''v'', FieldNode ''Version'' [],
      TextNode '' '', FieldNode ''Timestamp'' []]"

definition intro_content :: string where
  "intro_content = ''# Welcome'' @ [newline] @ ''Body text''"

definition revision :: "error + string \<Rightarrow> int \<Rightarrow> Revision" where
  "revision content version =
     \<lparr>ReadAll = content, Metadata = \<lparr>md_Timestamp = UTC 1620122400, md_Id = version\<rparr>\<rparr>"

definition example_store :: "string \<Rightarrow> error + Revision" where
  "example_store docId =
     (if docId = ''notes.txt'' then Inr (revision (Inr ''<b>hi</b>'') 1)
      else if docId = ''intro'' then Inr (revision (Inr intro_content) 3)
      else if docId = tmplDocName then Inr (revision (Inr example_template_source) 7)
      else if docId = ''unreadable'' then Inr (revision (Inl (ReadError ''unexpected EOF'')) 2)
      else Inl NotFound)"

text \<open>
  An environment over that store. Its renderer and its parser are tables for the
  documents of the store: the renderer gives the HTML of \<open>intro\<close>, the parser the parse
  tree of the page template.
\<close>

definition example_env :: "node list env" where
  "example_env =
     \<lparr>ds_GetDoc = example_store,
      markdown_ToHTML = (\<lambda>doc. ''<h1>Welcome</h1><p>Body text</p>''),
      template_Parse = (\<lambda>src. if src = example_template_source then Inr example_template
                               else Inl (ParseError ''unexpected token'')),
      template_Execute = Execute\<rparr>"

text \<open>
  The metadata and the page of \<open>intro\<close> in that environment: its first line, its HTML,
  the time of its revision in the format of \<open>time.RFC850\<close>, and its version.
\<close>

definition intro_meta :: docMetadata where
  "intro_meta =
     \<lparr>Title = ''# Welcome'', DocBody = ''<h1>Welcome</h1><p>Body text</p>'',
      Timestamp = ''Tuesday, 04-May-21 10:00:00 UTC'', Version = 3\<rparr>"

definition intro_page :: string where
  "intro_page =
     ''<title># Welcome</title><h1>Welcome</h1><p>Body text</p>v3 Tuesday, 04-May-21 10:00:00 UTC''"

definition example_request :: "string \<Rightarrow> Request" where
  "example_request docId = \<lparr>PathParameters = Map.empty(''docId'' \<mapsto> docId)\<rparr>"

text \<open>
  A template that has the four placeholders of a page and, before them, a placeholder
  for a field that \<open>docMetadata\<close> does not have.
\<close>

definition template_with_unknown_field :: "node list" where
  "template_with_unknown_field =
     [FieldNode ''Author'' [], FieldNode ''Title'' [], FieldNode ''DocBody'' [],
      FieldNode ''Timestamp'' [], FieldNode ''Version'' []]"

text \<open>
  Environments in which one step fails: the store is unavailable for \<open>intro\<close>; the
  page template is missing, cannot be read, or does not parse; the page template names
  the unknown field.
\<close>

definition unavailable_env :: "node list env" where
  "unavailable_env =
     example_env\<lparr>ds_GetDoc := example_store(''intro'' := Inl StorageUnavailable)\<rparr>"

definition template_missing_env :: "node list env" where
  "template_missing_env =
     example_env\<lparr>ds_GetDoc := example_store(tmplDocName := Inl NotFound)\<rparr>"

definition template_unreadable_env :: "node list env" where
  "template_unreadable_env =
     example_env\<lparr>ds_GetDoc := example_store(tmplDocName :=
       Inr (revision (Inl (ReadError ''unexpected EOF'')) 7))\<rparr>"

definition template_invalid_env :: "node list env" where
  "template_invalid_env =
     example_env\<lparr>ds_GetDoc := example_store(tmplDocName :=
       Inr (revision (Inr ''<title>{{.Title</title>'') 7))\<rparr>"

definition unknown_field_source :: string where
  "unknown_field_source = ''{{.Author}}{{.Title}}{{.DocBody}}{{.Timestamp}}{{.Version}}''"

definition unknown_field_env :: "node list env" where
  "unknown_field_env =
     example_env\<lparr>ds_GetDoc := example_store(tmplDocName :=
         Inr (revision (Inr unknown_field_source) 7)),
       template_Parse := (template_Parse example_env)
         (unknown_field_source := Inr template_with_unknown_field)\<rparr>"

subsection \<open>Notation for the results of the handler\<close>

text \<open>
  Abbreviations for the values the handler builds: \<open>Response{StatusCode: code}\<close>, the
  response of status 200 with its header, the \<open>docMetadata\<close> of a page, and the calls
  of a request up to the rendering of the markdown.
\<close>

abbreviation status_response :: "int \<Rightarrow> Response" where
  "status_response code \<equiv> Response0\<lparr>StatusCode := code\<rparr>"

abbreviation html_response :: "string \<Rightarrow> Response" where
  "html_response body \<equiv>
     \<lparr>StatusCode = 200, Headers = Map.empty(''Content-Type'' \<mapsto> ''text/html''),
      Body = body, IsBase64Encoded = False\<rparr>"

abbreviation page_meta :: "'t env \<Rightarrow> Revision \<Rightarrow> string \<Rightarrow> docMetadata" where
  "page_meta env rev' doc \<equiv>
     \<lparr>Title = firstLine doc, DocBody = markdown_ToHTML env doc,
      Timestamp = Format (md_Timestamp (Metadata rev')) RFC850,
      Version = md_Id (Metadata rev')\<rparr>"

abbreviation render_calls :: "string \<Rightarrow> string \<Rightarrow> call list" where
  "render_calls docId doc \<equiv>
     [CallGetDoc docId, CallReadAll docId, CallContains docId ''.'', CallToHTML doc]"

section \<open>Properties\<close>

subsection \<open>The branches of the handler\<close>

lemma strings_Contains_dot: "strings_Contains s ''.'' \<longleftrightarrow> CHR ''.'' \<in> set s"
  unfolding strings_Contains_def
  by (induction s) (auto simp: sublist_Cons_right)

lemma example_docId [simp]: "request_docId (example_request docId) = docId"
  by (simp add: example_request_def request_docId_def)

lemma Handler_fetch_error:
  "ds_GetDoc env (request_docId request) = Inl err \<Longrightarrow>
   Handler env request =
     ((status_response 404, None),
      [CallGetDoc (request_docId request), CallPrintf ''GetDoc error: %v'' err])"
  by (simp add: Handler_def)

lemma Handler_read_error:
  "ds_GetDoc env (request_docId request) = Inr rev' \<Longrightarrow> ReadAll rev' = Inl err \<Longrightarrow>
   Handler env request =
     ((status_response 500, Some err),
      [CallGetDoc (request_docId request), CallReadAll (request_docId request),
       CallPrintf ''ReadAll error: %v'' err])"
  by (simp add: Handler_def Let_def)

lemma Handler_raw:
  "ds_GetDoc env (request_docId request) = Inr rev' \<Longrightarrow> ReadAll rev' = Inr doc \<Longrightarrow>
   CHR ''.'' \<in> set (request_docId request) \<Longrightarrow>
   Handler env request =
     ((html_response doc, None),
      [CallGetDoc (request_docId request), CallReadAll (request_docId request),
       CallContains (request_docId request) ''.''])"
  by (simp add: Handler_def Let_def strings_Contains_dot)

lemma Handler_template_error:
  "ds_GetDoc env (request_docId request) = Inr rev' \<Longrightarrow> ReadAll rev' = Inr doc \<Longrightarrow>
   CHR ''.'' \<notin> set (request_docId request) \<Longrightarrow> getTemplate env = (Inl err, tcalls) \<Longrightarrow>
   Handler env request =
     ((status_response 500, Some err), render_calls (request_docId request) doc @ tcalls)"
  by (simp add: Handler_def Let_def strings_Contains_dot)

lemma Handler_execute_error:
  "ds_GetDoc env (request_docId request) = Inr rev' \<Longrightarrow> ReadAll rev' = Inr doc \<Longrightarrow>
   CHR ''.'' \<notin> set (request_docId request) \<Longrightarrow> getTemplate env = (Inr tmpl, tcalls) \<Longrightarrow>
   template_Execute env tmpl (page_meta env rev' doc) = (b, Some err) \<Longrightarrow>
   Handler env request =
     ((status_response 500, Some err),
      render_calls (request_docId request) doc @ tcalls
      @ [CallExecute (page_meta env rev' doc)])"
  by (simp add: Handler_def Let_def strings_Contains_dot)

lemma Handler_page:
  "ds_GetDoc env (request_docId request) = Inr rev' \<Longrightarrow> ReadAll rev' = Inr doc \<Longrightarrow>
   CHR ''.'' \<notin> set (request_docId request) \<Longrightarrow> getTemplate env = (Inr tmpl, tcalls) \<Longrightarrow>
   template_Execute env tmpl (page_meta env rev' doc) = (b, None) \<Longrightarrow>
   Handler env request =
     ((html_response b, None),
      render_calls (request_docId request) doc @ tcalls
      @ [CallExecute (page_meta env rev' doc)])"
  by (simp add: Handler_def Let_def strings_Contains_dot)

lemma getTemplate_fetch_error:
  "ds_GetDoc env tmplDocName = Inl err \<Longrightarrow>
   getTemplate env = (Inl err, [CallGetDoc tmplDocName])"
  by (simp add: getTemplate_def)

lemma getTemplate_read_error:
  "ds_GetDoc env tmplDocName = Inr tmplDoc \<Longrightarrow> ReadAll tmplDoc = Inl err \<Longrightarrow>
   getTemplate env = (Inl err, [CallGetDoc tmplDocName, CallReadAll tmplDocName])"
  by (simp add: getTemplate_def)

lemma getTemplate_parse:
  "ds_GetDoc env tmplDocName = Inr tmplDoc \<Longrightarrow> ReadAll tmplDoc = Inr src \<Longrightarrow>
   getTemplate env =
     (template_Parse env src,
      [CallGetDoc tmplDocName, CallReadAll tmplDocName, CallParse src])"
  by (simp add: getTemplate_def)

lemma example_store_simps [simp]:
  "example_store ''notes.txt'' = Inr (revision (Inr ''<b>hi</b>'') 1)"
  "example_store ''intro'' = Inr (revision (Inr intro_content) 3)"
  "example_store ''doc-template.html'' = Inr (revision (Inr example_template_source) 7)"
  "example_store ''unreadable'' = Inr (revision (Inl (ReadError ''unexpected EOF'')) 2)"
  "example_store ''no-such-doc'' = Inl NotFound"
  by (simp_all add: example_store_def tmplDocName_def)

lemma revision_simps [simp]:
  "ReadAll (revision content version) = content"
  "md_Id (Metadata (revision content version)) = version"
  "md_Timestamp (Metadata (revision content version)) = UTC 1620122400"
  by (simp_all add: revision_def)

subsection \<open>A document that is not found\<close>

text \<open>
  C4: for every request whose identifier has no stored document (the fetch fails with
  \<open>NotFound\<close>), the handler responds with status 404 and an empty body, and no further
  pipeline stage (classification, render, template, compose) runs. The whole result of
  the handler is fixed: the response is \<open>Response{StatusCode: 404}\<close>, whose body is
  empty and which has no header, the error is nil, and the calls of the request are the
  fetch and the log line, so that there is no read, no classification test, no rendering,
  no template fetch or parse and no composition; the result is the same in every
  environment in which the fetch fails so, whatever the later stages would do.
\<close>

theorem C4_not_found:
  "ds_GetDoc env (request_docId request) = Inl NotFound \<Longrightarrow>
   Handler env request =
     ((Response0\<lparr>StatusCode := 404\<rparr>, None),
      [CallGetDoc (request_docId request), CallPrintf ''GetDoc error: %v'' NotFound]) \<and>
   StatusCode (fst (fst (Handler env request))) = 404 \<and>
   Body (fst (fst (Handler env request))) = [] \<and>
   Headers (fst (fst (Handler env request))) = Map.empty \<and>
   (\<forall>docId doc. CallReadAll docId \<notin> set (snd (Handler env request)) \<and>
      CallContains docId ''.'' \<notin> set (snd (Handler env request)) \<and>
      CallToHTML doc \<notin> set (snd (Handler env request)) \<and>
      CallParse doc \<notin> set (snd (Handler env request))) \<and>
   (\<forall>meta. CallExecute meta \<notin> set (snd (Handler env request))) \<and>
   (\<forall>env' :: 't env. ds_GetDoc env' (request_docId request) = Inl NotFound \<longrightarrow>
      Handler env' request = Handler env request)"
  by (simp add: Handler_fetch_error Response0_def)

theorem C4_not_found_witness:
  "ds_GetDoc example_env (request_docId (example_request ''no-such-doc'')) = Inl NotFound \<and>
   Handler example_env (example_request ''no-such-doc'') =
     ((Response0\<lparr>StatusCode := 404\<rparr>, None),
      [CallGetDoc ''no-such-doc'', CallPrintf ''GetDoc error: %v'' NotFound]) \<and>
   Handler template_missing_env (example_request ''no-such-doc'') =
     Handler example_env (example_request ''no-such-doc'')"
proof -
  have h: "ds_GetDoc example_env (request_docId (example_request ''no-such-doc'')) = Inl NotFound"
    by (simp add: example_env_def)
  have h': "ds_GetDoc template_missing_env (request_docId (example_request ''no-such-doc''))
      = Inl NotFound"
    by (simp add: template_missing_env_def example_env_def tmplDocName_def)
  note c = C4_not_found [OF h, unfolded example_docId]
  have r: "Handler example_env (example_request ''no-such-doc'') =
     ((Response0\<lparr>StatusCode := 404\<rparr>, None),
      [CallGetDoc ''no-such-doc'', CallPrintf ''GetDoc error: %v'' NotFound])"
    by (rule conjunct1 [OF c])
  from c h' [unfolded example_docId]
  have "Handler template_missing_env (example_request ''no-such-doc'') =
     Handler example_env (example_request ''no-such-doc'')"
    by blast
  with h r show ?thesis
    by blast
qed

lemma Handler_templated:
  "ds_GetDoc env (request_docId request) = Inr rev' \<Longrightarrow> ReadAll rev' = Inr doc \<Longrightarrow>
   CHR ''.'' \<notin> set (request_docId request) \<Longrightarrow>
   Handler env request =
     (case getTemplate env of
        (Inl err, tcalls) \<Rightarrow>
          ((status_response 500, Some err), render_calls (request_docId request) doc @ tcalls)
      | (Inr tmpl, tcalls) \<Rightarrow>
          (case template_Execute env tmpl (page_meta env rev' doc) of
             (b, Some err) \<Rightarrow>
               ((status_response 500, Some err),
                render_calls (request_docId request) doc @ tcalls
                @ [CallExecute (page_meta env rev' doc)])
           | (b, None) \<Rightarrow>
               ((html_response b, None),
                render_calls (request_docId request) doc @ tcalls
                @ [CallExecute (page_meta env rev' doc)])))"
  by (simp add: Handler_def Let_def strings_Contains_dot
      split: prod.splits sum.splits option.splits)

lemma getTemplate_calls: "\<exists>rest. snd (getTemplate env) = CallGetDoc tmplDocName # rest"
  by (simp add: getTemplate_def split: sum.splits)

lemma Handler_templated_prefix:
  assumes "ds_GetDoc env (request_docId request) = Inr rev'" and "ReadAll rev' = Inr doc"
    and "CHR ''.'' \<notin> set (request_docId request)"
  shows "prefix (render_calls (request_docId request) doc @ [CallGetDoc tmplDocName])
           (snd (Handler env request))"
proof -
  obtain rest where r: "snd (getTemplate env) = CallGetDoc tmplDocName # rest"
    using getTemplate_calls by blast
  obtain t tcalls where gt: "getTemplate env = (t, tcalls)"
    by (cases "getTemplate env")
  with r have tc: "tcalls = CallGetDoc tmplDocName # rest" by simp
  have p: "prefix (render_calls (request_docId request) doc @ [CallGetDoc tmplDocName])
      (render_calls (request_docId request) doc @ tcalls @ more)" for more
    unfolding tc by (simp add: prefix_def)
  show ?thesis
  proof (cases t)
    case (Inl err)
    from p [of "[]"] show ?thesis
      unfolding Handler_template_error [OF assms gt [unfolded Inl]] by (simp del: same_prefix_prefix)
  next
    case (Inr tmpl)
    obtain b e where ex: "template_Execute env tmpl (page_meta env rev' doc) = (b, e)"
      by (cases "template_Execute env tmpl (page_meta env rev' doc)")
    show ?thesis
    proof (cases e)
      case None
      from p [of "[CallExecute (page_meta env rev' doc)]"] show ?thesis
        unfolding Handler_page [OF assms gt [unfolded Inr] ex [unfolded None]]
        by (simp del: same_prefix_prefix)
    next
      case (Some err)
      from p [of "[CallExecute (page_meta env rev' doc)]"] show ?thesis
        unfolding Handler_execute_error [OF assms gt [unfolded Inr] ex [unfolded Some]]
        by (simp del: same_prefix_prefix)
    qed
  qed
qed

subsection \<open>Failures of the fetch\<close>

text \<open>
  C1, as the spec states it, fails: a fetch that fails with \<open>StorageUnavailable\<close> gets
  status 404, not 500. In the environment whose store is unavailable for \<open>intro\<close> the
  request for \<open>intro\<close> is answered with status 404 and a nil error.
\<close>

theorem C1_counterexample:
  "ds_GetDoc unavailable_env (request_docId (example_request ''intro'')) = Inl StorageUnavailable \<and>
   StatusCode (fst (fst (Handler unavailable_env (example_request ''intro'')))) = 404 \<and>
   StatusCode (fst (fst (Handler unavailable_env (example_request ''intro'')))) \<noteq> 500 \<and>
   snd (fst (Handler unavailable_env (example_request ''intro''))) = None \<and>
   snd (Handler unavailable_env (example_request ''intro'')) =
     [CallGetDoc ''intro'', CallPrintf ''GetDoc error: %v'' StorageUnavailable]"
proof -
  have h: "ds_GetDoc unavailable_env ''intro'' = Inl StorageUnavailable"
    by (simp add: unavailable_env_def example_env_def)
  have "Handler unavailable_env (example_request ''intro'') =
     ((status_response 404, None),
      [CallGetDoc ''intro'', CallPrintf ''GetDoc error: %v'' StorageUnavailable])"
    using Handler_fetch_error [of unavailable_env "example_request ''intro''" StorageUnavailable] h
    by simp
  with h show ?thesis
    by simp
qed

text \<open>
  C1, amended: every failure of the document fetch, \<open>StorageUnavailable\<close> as well as
  \<open>NotFound\<close>, gets status 404 with a nil error after a log line, so the handler does
  not distinguish the failure kinds of the fetch; a request that is answered with status
  500 has had its document fetched. A failure of reading the content of the fetched
  revision gets status 500, with the read error returned.
\<close>

theorem C1_fetch_failures:
  "(ds_GetDoc env (request_docId request) = Inl err \<longrightarrow>
      Handler env request =
        ((Response0\<lparr>StatusCode := 404\<rparr>, None),
         [CallGetDoc (request_docId request), CallPrintf ''GetDoc error: %v'' err])) \<and>
   (ds_GetDoc env (request_docId request) = Inr rev' \<and> ReadAll rev' = Inl err \<longrightarrow>
      Handler env request =
        ((Response0\<lparr>StatusCode := 500\<rparr>, Some err),
         [CallGetDoc (request_docId request), CallReadAll (request_docId request),
          CallPrintf ''ReadAll error: %v'' err])) \<and>
   (StatusCode (fst (fst (Handler env request))) = 500 \<longrightarrow>
      (\<exists>r. ds_GetDoc env (request_docId request) = Inr r))"
proof (intro conjI impI)
  assume "ds_GetDoc env (request_docId request) = Inl err"
  then show "Handler env request =
        ((Response0\<lparr>StatusCode := 404\<rparr>, None),
         [CallGetDoc (request_docId request), CallPrintf ''GetDoc error: %v'' err])"
    by (rule Handler_fetch_error)
next
  assume "ds_GetDoc env (request_docId request) = Inr rev' \<and> ReadAll rev' = Inl err"
  then show "Handler env request =
        ((Response0\<lparr>StatusCode := 500\<rparr>, Some err),
         [CallGetDoc (request_docId request), CallReadAll (request_docId request),
          CallPrintf ''ReadAll error: %v'' err])"
    using Handler_read_error by blast
next
  assume s: "StatusCode (fst (fst (Handler env request))) = 500"
  show "\<exists>r. ds_GetDoc env (request_docId request) = Inr r"
  proof (cases "ds_GetDoc env (request_docId request)")
    case (Inl e)
    from s show ?thesis
      unfolding Handler_fetch_error [OF Inl] by simp
  next
    case (Inr r)
    then show ?thesis by blast
  qed
qed

theorem C1_fetch_failures_witness:
  "Handler unavailable_env (example_request ''intro'') =
     ((Response0\<lparr>StatusCode := 404\<rparr>, None),
      [CallGetDoc ''intro'', CallPrintf ''GetDoc error: %v'' StorageUnavailable]) \<and>
   Handler example_env (example_request ''no-such-doc'') =
     ((Response0\<lparr>StatusCode := 404\<rparr>, None),
      [CallGetDoc ''no-such-doc'', CallPrintf ''GetDoc error: %v'' NotFound]) \<and>
   Handler example_env (example_request ''unreadable'') =
     ((Response0\<lparr>StatusCode := 500\<rparr>, Some (ReadError ''unexpected EOF'')),
      [CallGetDoc ''unreadable'', CallReadAll ''unreadable'',
       CallPrintf ''ReadAll error: %v'' (ReadError ''unexpected EOF'')]) \<and>
   StatusCode (fst (fst (Handler example_env (example_request ''unreadable'')))) = 500 \<and>
   ds_GetDoc example_env ''unreadable'' = Inr (revision (Inl (ReadError ''unexpected EOF'')) 2)"
proof -
  have a: "ds_GetDoc unavailable_env (request_docId (example_request ''intro''))
      = Inl StorageUnavailable"
    by (simp add: unavailable_env_def example_env_def)
  have b: "ds_GetDoc example_env (request_docId (example_request ''no-such-doc'')) = Inl NotFound"
    by (simp add: example_env_def)
  have c: "ds_GetDoc example_env (request_docId (example_request ''unreadable''))
      = Inr (revision (Inl (ReadError ''unexpected EOF'')) 2)"
    "ReadAll (revision (Inl (ReadError ''unexpected EOF'')) 2) = Inl (ReadError ''unexpected EOF'')"
    by (simp_all add: example_env_def)
  from C1_fetch_failures [where env = unavailable_env and request = "example_request ''intro''"
      and err = StorageUnavailable] a
  have 1: "Handler unavailable_env (example_request ''intro'') =
     ((Response0\<lparr>StatusCode := 404\<rparr>, None),
      [CallGetDoc ''intro'', CallPrintf ''GetDoc error: %v'' StorageUnavailable])"
    by simp
  from C1_fetch_failures [where env = example_env and request = "example_request ''no-such-doc''"
      and err = NotFound] b
  have 2: "Handler example_env (example_request ''no-such-doc'') =
     ((Response0\<lparr>StatusCode := 404\<rparr>, None),
      [CallGetDoc ''no-such-doc'', CallPrintf ''GetDoc error: %v'' NotFound])"
    by simp
  from C1_fetch_failures [where env = example_env and request = "example_request ''unreadable''"
      and rev' = "revision (Inl (ReadError ''unexpected EOF'')) 2"
      and err = "ReadError ''unexpected EOF''"] c
  have 3: "Handler example_env (example_request ''unreadable'') =
     ((Response0\<lparr>StatusCode := 500\<rparr>, Some (ReadError ''unexpected EOF'')),
      [CallGetDoc ''unreadable'', CallReadAll ''unreadable'',
       CallPrintf ''ReadAll error: %v'' (ReadError ''unexpected EOF'')])"
    by simp
  from 1 2 3 c show ?thesis
    by simp
qed

subsection \<open>Raw documents\<close>

text \<open>
  C3: for every request whose identifier contains a \<open>.\<close> and whose fetch and read
  succeed, the handler responds with status 200, the header \<open>Content-Type: text/html\<close>
  and a body equal to the fetched content, with a nil error; its calls are the fetch, the
  read and the classification test, so there is no markdown conversion, no template
  fetch or parse, and no composition.
\<close>

theorem C3_raw_passthrough:
  assumes "CHR ''.'' \<in> set (request_docId request)"
    and "ds_GetDoc env (request_docId request) = Inr rev'"
    and "ReadAll rev' = Inr doc"
  shows "Handler env request =
           ((\<lparr>StatusCode = 200, Headers = Map.empty(''Content-Type'' \<mapsto> ''text/html''),
              Body = doc, IsBase64Encoded = False\<rparr>, None),
            [CallGetDoc (request_docId request), CallReadAll (request_docId request),
             CallContains (request_docId request) ''.'']) \<and>
         StatusCode (fst (fst (Handler env request))) = 200 \<and>
         Headers (fst (fst (Handler env request))) ''Content-Type'' = Some ''text/html'' \<and>
         Body (fst (fst (Handler env request))) = doc \<and>
         (\<forall>d. CallToHTML d \<notin> set (snd (Handler env request)) \<and>
              CallParse d \<notin> set (snd (Handler env request))) \<and>
         (\<forall>meta. CallExecute meta \<notin> set (snd (Handler env request))) \<and>
         length (filter (\<lambda>c. c = CallGetDoc tmplDocName) (snd (Handler env request))) \<le> 1"
  unfolding Handler_raw [OF assms(2,3,1)] by simp

theorem C3_raw_passthrough_witness:
  "CHR ''.'' \<in> set (request_docId (example_request ''notes.txt'')) \<and>
   ds_GetDoc example_env (request_docId (example_request ''notes.txt''))
     = Inr (revision (Inr ''<b>hi</b>'') 1) \<and>
   ReadAll (revision (Inr ''<b>hi</b>'') 1) = Inr ''<b>hi</b>'' \<and>
   Handler example_env (example_request ''notes.txt'') =
     ((\<lparr>StatusCode = 200, Headers = Map.empty(''Content-Type'' \<mapsto> ''text/html''),
        Body = ''<b>hi</b>'', IsBase64Encoded = False\<rparr>, None),
      [CallGetDoc ''notes.txt'', CallReadAll ''notes.txt'', CallContains ''notes.txt'' ''.''])"
proof -
  have a: "CHR ''.'' \<in> set (request_docId (example_request ''notes.txt''))"
    by simp
  have b: "ds_GetDoc example_env (request_docId (example_request ''notes.txt''))
     = Inr (revision (Inr ''<b>hi</b>'') 1)"
    by (simp add: example_env_def)
  have c: "ReadAll (revision (Inr ''<b>hi</b>'') 1) = Inr ''<b>hi</b>''"
    by simp
  note t = C3_raw_passthrough [OF a b c, unfolded example_docId]
  from a b c conjunct1 [OF t] show ?thesis
    by blast
qed

subsection \<open>The classification of a request\<close>

text \<open>
  C2: the test the handler makes on an identifier, \<open>strings.Contains(docId, ".")\<close>,
  holds exactly when the identifier contains the character \<open>.\<close>, for every identifier.
  For every request whose document is fetched and read, an identifier with a \<open>.\<close> makes
  the request raw: the whole result is the content passed through verbatim. An identifier
  without a \<open>.\<close> makes it markdown-templated: the markdown is rendered, the template
  is fetched, and the result is the error of the template or of the composition, or the
  composed page. The store, the content and the metadata are arbitrary here, so the
  decision depends on the identifier alone: two requests for the same identifier are
  both raw or both templated, whatever their documents hold.
\<close>

theorem C2_render_mode:
  "(strings_Contains docId ''.'' \<longleftrightarrow> CHR ''.'' \<in> set docId) \<and>
   (ds_GetDoc env (request_docId request) = Inr rev' \<and> ReadAll rev' = Inr doc \<longrightarrow>
      (CHR ''.'' \<in> set (request_docId request) \<longrightarrow>
         Handler env request =
           ((html_response doc, None),
            [CallGetDoc (request_docId request), CallReadAll (request_docId request),
             CallContains (request_docId request) ''.''])) \<and>
      (CHR ''.'' \<notin> set (request_docId request) \<longrightarrow>
         prefix (render_calls (request_docId request) doc @ [CallGetDoc tmplDocName])
           (snd (Handler env request)) \<and>
         Handler env request =
           (case getTemplate env of
              (Inl err, tcalls) \<Rightarrow>
                ((status_response 500, Some err),
                 render_calls (request_docId request) doc @ tcalls)
            | (Inr tmpl, tcalls) \<Rightarrow>
                (case template_Execute env tmpl (page_meta env rev' doc) of
                   (b, Some err) \<Rightarrow>
                     ((status_response 500, Some err),
                      render_calls (request_docId request) doc @ tcalls
                      @ [CallExecute (page_meta env rev' doc)])
                 | (b, None) \<Rightarrow>
                     ((html_response b, None),
                      render_calls (request_docId request) doc @ tcalls
                      @ [CallExecute (page_meta env rev' doc)]))))) \<and>
   (ds_GetDoc env (request_docId request) = Inr rev' \<and> ReadAll rev' = Inr doc \<and>
    ds_GetDoc env2 (request_docId request) = Inr rev2 \<and> ReadAll rev2 = Inr doc2 \<longrightarrow>
      (CallToHTML doc \<in> set (snd (Handler env request)) \<longleftrightarrow>
       CallToHTML doc2 \<in> set (snd (Handler env2 request))))"
proof (intro conjI impI)
  show "strings_Contains docId ''.'' \<longleftrightarrow> CHR ''.'' \<in> set docId"
    by (rule strings_Contains_dot)
next
  assume "ds_GetDoc env (request_docId request) = Inr rev' \<and> ReadAll rev' = Inr doc"
    and "CHR ''.'' \<in> set (request_docId request)"
  then show "Handler env request =
           ((html_response doc, None),
            [CallGetDoc (request_docId request), CallReadAll (request_docId request),
             CallContains (request_docId request) ''.''])"
    using Handler_raw by blast
next
  assume "ds_GetDoc env (request_docId request) = Inr rev' \<and> ReadAll rev' = Inr doc"
    and "CHR ''.'' \<notin> set (request_docId request)"
  then show "prefix (render_calls (request_docId request) doc @ [CallGetDoc tmplDocName])
           (snd (Handler env request))"
    using Handler_templated_prefix by blast
next
  assume "ds_GetDoc env (request_docId request) = Inr rev' \<and> ReadAll rev' = Inr doc"
    and "CHR ''.'' \<notin> set (request_docId request)"
  then show "Handler env request =
           (case getTemplate env of
              (Inl err, tcalls) \<Rightarrow>
                ((status_response 500, Some err),
                 render_calls (request_docId request) doc @ tcalls)
            | (Inr tmpl, tcalls) \<Rightarrow>
                (case template_Execute env tmpl (page_meta env rev' doc) of
                   (b, Some err) \<Rightarrow>
                     ((status_response 500, Some err),
                      render_calls (request_docId request) doc @ tcalls
                      @ [CallExecute (page_meta env rev' doc)])
                 | (b, None) \<Rightarrow>
                     ((html_response b, None),
                      render_calls (request_docId request) doc @ tcalls
                      @ [CallExecute (page_meta env rev' doc)])))"
    using Handler_templated by blast
next
  assume a: "ds_GetDoc env (request_docId request) = Inr rev' \<and> ReadAll rev' = Inr doc \<and>
    ds_GetDoc env2 (request_docId request) = Inr rev2 \<and> ReadAll rev2 = Inr doc2"
  have m: "CallToHTML d \<in> set (snd (Handler e request)) \<longleftrightarrow>
      CHR ''.'' \<notin> set (request_docId request)"
    if f: "ds_GetDoc e (request_docId request) = Inr r" and g: "ReadAll r = Inr d"
    for e :: "'c env" and r d
  proof (cases "CHR ''.'' \<in> set (request_docId request)")
    case True
    show ?thesis
      unfolding Handler_raw [OF f g True] using True by simp
  next
    case False
    from Handler_templated_prefix [OF f g False]
    have "set (render_calls (request_docId request) d @ [CallGetDoc tmplDocName])
        \<subseteq> set (snd (Handler e request))"
      by (rule set_mono_prefix)
    with False show ?thesis by simp
  qed
  from a m [of env rev' doc] m [of env2 rev2 doc2]
  show "CallToHTML doc \<in> set (snd (Handler env request)) \<longleftrightarrow>
       CallToHTML doc2 \<in> set (snd (Handler env2 request))"
    by blast
qed

subsection \<open>The scanner of the title\<close>

text \<open>
  What one call of \<open>Scan\<close> on a new scanner leaves as its token, by induction on
  the bytes that are still to be read.
\<close>

lemma takeWhile_take_found:
  "x \<in> set (take n xs) \<Longrightarrow> takeWhile (\<lambda>y. y \<noteq> x) (take n xs) = takeWhile (\<lambda>y. y \<noteq> x) xs"
proof (induction xs arbitrary: n)
  case Nil
  then show ?case by simp
next
  case (Cons a xs)
  then show ?case by (cases n) auto
qed

lemma take_length_takeWhile: "take (length (takeWhile P xs)) xs = takeWhile P xs"
  by (induction xs) auto

lemma takeWhile_all: "x \<notin> set xs \<Longrightarrow> takeWhile (\<lambda>y. y \<noteq> x) xs = xs"
  by (induction xs) auto

lemma ScanLines_found:
  "newline \<in> set data \<Longrightarrow>
   snd (ScanLines data atEOF) = Some (dropCR (takeWhile (\<lambda>y. y \<noteq> newline) data))"
  by (auto simp: ScanLines_def IndexByte_def take_length_takeWhile)

lemma ScanLines_more: "newline \<notin> set data \<Longrightarrow> snd (ScanLines data False) = None"
  by (simp add: ScanLines_def IndexByte_def)

lemma ScanLines_final:
  "newline \<notin> set data \<Longrightarrow>
   snd (ScanLines data True) = (if data = [] then None else Some (dropCR data))"
  by (simp add: ScanLines_def IndexByte_def)

lemma Scan_at_EOF:
  "Scan input cap (length input) True =
     (if input = [] then (False, None)
      else (True, Some (dropCR (takeWhile (\<lambda>y. y \<noteq> newline) input))))"
proof (cases "newline \<in> set input")
  case True
  then have "input \<noteq> []" by auto
  with True show ?thesis
    by (subst Scan.simps) (simp add: ScanLines_found)
next
  case False
  then show ?thesis
    by (subst Scan.simps) (simp add: ScanLines_final takeWhile_all)
qed

lemma resize_bounds:
  assumes "end \<le> cap" "cap \<le> MaxScanTokenSize" "end < MaxScanTokenSize"
  shows "end < resize cap end" "resize cap end \<le> MaxScanTokenSize"
  using assms by (auto simp: resize_def startBufSize_def MaxScanTokenSize_def)

lemma Scan_found:
  assumes "newline \<in> set (take end input)"
  shows "Scan input cap end err = (True, Some (dropCR (takeWhile (\<lambda>y. y \<noteq> newline) input)))"
proof -
  from assms have "0 < end" by (cases "end") auto
  with assms show ?thesis
    by (subst Scan.simps) (simp add: ScanLines_found takeWhile_take_found)
qed

lemma Scan_read:
  assumes "newline \<notin> set (take end input)"
  shows "Scan input cap end False =
     (if end = cap \<and> MaxScanTokenSize \<le> cap then (False, None)
      else if length input \<le> end then Scan input (resize cap end) end True
      else if min (resize cap end - end) (length input - end) = 0
           then Scan input (resize cap end) end True
      else Scan input (resize cap end)
             (end + min (resize cap end - end) (length input - end)) False)"
proof -
  have s: "(if 0 < end \<or> False then snd (ScanLines (take end input) False) else None) = None"
    using assms by (simp add: ScanLines_more)
  show ?thesis
    by (subst Scan.simps) (simp only: s option.case if_False Let_def cong del: if_weak_cong)
qed

lemma Scan_eq:
  assumes "end \<le> cap" "cap \<le> MaxScanTokenSize" "end \<le> length input"
  shows "Scan input cap end False =
     (if newline \<in> set (take MaxScanTokenSize input)
      then (True, Some (dropCR (takeWhile (\<lambda>y. y \<noteq> newline) input)))
      else if length input < MaxScanTokenSize
           then (if input = [] then (False, None) else (True, Some (dropCR input)))
           else (False, None))"
  using assms
proof (induction "length input - end" arbitrary: cap "end" rule: less_induct)
  case less
  show ?case
  proof (cases "newline \<in> set (take end input)")
    case True
    then have "newline \<in> set (take MaxScanTokenSize input)"
      using less.prems set_take_subset_set_take [of "end" MaxScanTokenSize input] by auto
    with True show ?thesis
      by (simp add: Scan_found)
  next
    case False
    note nofound = this
    show ?thesis
    proof (cases "end = MaxScanTokenSize")
      case True
      with less.prems have full: "end = cap \<and> MaxScanTokenSize \<le> cap" by auto
      have "Scan input cap end False = (False, None)"
        by (subst Scan_read [OF nofound]) (use full in simp)
      moreover from True nofound less.prems
      have "newline \<notin> set (take MaxScanTokenSize input)" "\<not> length input < MaxScanTokenSize"
        by auto
      ultimately show ?thesis
        by (simp only: if_False)
    next
      case False
      with less.prems have lt: "end < MaxScanTokenSize" by simp
      note g = resize_bounds [OF less.prems(1) less.prems(2) lt]
      from lt less.prems have notfull: "\<not> (end = cap \<and> MaxScanTokenSize \<le> cap)" by auto
      show ?thesis
      proof (cases "length input \<le> end")
        case True
        with less.prems have len: "end = length input" by simp
        with nofound have nl: "newline \<notin> set input" by simp
        then have nl': "newline \<notin> set (take MaxScanTokenSize input)"
          by (meson in_set_takeD)
        have "Scan input cap end False = Scan input (resize cap end) end True"
          by (simp only: Scan_read [OF nofound] notfull True if_False if_True)
        also have "\<dots> = Scan input (resize cap end) (length input) True"
          by (simp only: len)
        also have "\<dots> = (if input = [] then (False, None) else (True, Some (dropCR input)))"
          using nl by (simp add: Scan_at_EOF takeWhile_all)
        finally show ?thesis
          using nl' len lt by simp
      next
        case False
        let ?n = "min (resize cap end - end) (length input - end)"
        from False g have pos: "?n \<noteq> 0" by simp
        have step: "Scan input cap end False = Scan input (resize cap end) (end + ?n) False"
          by (simp only: Scan_read [OF nofound] notfull False pos if_False)
        have "length input - (end + ?n) < length input - end"
          using False pos by linarith
        moreover have "end + ?n \<le> resize cap end" "end + ?n \<le> length input"
          using False g by auto
        ultimately have "Scan input (resize cap end) (end + ?n) False =
          (if newline \<in> set (take MaxScanTokenSize input)
           then (True, Some (dropCR (takeWhile (\<lambda>y. y \<noteq> newline) input)))
           else if length input < MaxScanTokenSize
                then (if input = [] then (False, None) else (True, Some (dropCR input)))
                else (False, None))"
          using g(2) by (intro less.hyps)
        with step show ?thesis
          by (simp only:)
      qed
    qed
  qed
qed

lemma firstLine_eq:
  "firstLine b =
     (if newline \<in> set (take MaxScanTokenSize b) then dropCR (takeWhile (\<lambda>y. y \<noteq> newline) b)
      else if length b < MaxScanTokenSize then dropCR b
      else [])"
  by (simp add: firstLine_def Scan_eq dropCR_def)

lemma newline_not_a [simp]:
  "newline \<noteq> CHR ''a''" "CHR ''a'' \<noteq> newline" "newline \<noteq> carriage_return"
  "carriage_return \<noteq> newline"
  by (simp_all add: newline_def carriage_return_def)



lemma firstLine_line:
  "newline \<in> set (take MaxScanTokenSize b) \<Longrightarrow>
   firstLine b = dropCR (takeWhile (\<lambda>c. c \<noteq> newline) b)"
  by (simp add: firstLine_eq)










subsection \<open>The example requests\<close>

lemma example_intro [simp]:
  "ds_GetDoc example_env ''intro'' = Inr (revision (Inr intro_content) 3)"
  "ds_GetDoc unknown_field_env ''intro'' = Inr (revision (Inr intro_content) 3)"
  "ds_GetDoc template_missing_env ''intro'' = Inr (revision (Inr intro_content) 3)"
  "ds_GetDoc template_unreadable_env ''intro'' = Inr (revision (Inr intro_content) 3)"
  "ds_GetDoc template_invalid_env ''intro'' = Inr (revision (Inr intro_content) 3)"
  by (simp_all add: example_env_def unknown_field_env_def template_missing_env_def
      template_unreadable_env_def template_invalid_env_def tmplDocName_def)

lemma intro_no_dot [simp]: "CHR ''.'' \<notin> set ''intro''"
  by simp

lemma example_template_doc [simp]:
  "ds_GetDoc example_env tmplDocName = Inr (revision (Inr example_template_source) 7)"
  "ds_GetDoc template_missing_env tmplDocName = Inl NotFound"
  "ds_GetDoc template_unreadable_env tmplDocName
     = Inr (revision (Inl (ReadError ''unexpected EOF'')) 7)"
  "ds_GetDoc template_invalid_env tmplDocName
     = Inr (revision (Inr ''<title>{{.Title</title>'') 7)"
  "ds_GetDoc unknown_field_env tmplDocName = Inr (revision (Inr unknown_field_source) 7)"
  by (simp_all add: example_env_def unknown_field_env_def template_missing_env_def
      template_unreadable_env_def template_invalid_env_def example_store_def tmplDocName_def)

lemma example_parse [simp]:
  "template_Parse example_env example_template_source = Inr example_template"
  "template_Parse template_invalid_env ''<title>{{.Title</title>''
     = Inl (ParseError ''unexpected token'')"
  "template_Parse unknown_field_env unknown_field_source = Inr template_with_unknown_field"
  by (simp_all add: example_env_def unknown_field_env_def template_invalid_env_def
      example_template_source_def)

lemma example_execute [simp]:
  "template_Execute example_env = Execute"
  "template_Execute unknown_field_env = Execute"
  by (simp_all add: example_env_def unknown_field_env_def)

lemma firstLine_intro: "firstLine intro_content = ''# Welcome''"
proof -
  have "firstLine intro_content = dropCR (takeWhile (\<lambda>c. c \<noteq> newline) intro_content)"
    by (rule firstLine_line) (simp add: intro_content_def MaxScanTokenSize_def)
  then show ?thesis
    by (simp add: intro_content_def dropCR_def newline_def carriage_return_def)
qed

lemma Format_intro: "Format (UTC 1620122400) RFC850 = ''Tuesday, 04-May-21 10:00:00 UTC''"
  by code_simp

lemma example_markdown [simp]:
  "markdown_ToHTML example_env doc = ''<h1>Welcome</h1><p>Body text</p>''"
  "markdown_ToHTML unknown_field_env doc = ''<h1>Welcome</h1><p>Body text</p>''"
  by (simp_all add: example_env_def unknown_field_env_def)

lemma page_meta_intro:
  "page_meta example_env (revision (Inr intro_content) 3) intro_content = intro_meta"
  "page_meta unknown_field_env (revision (Inr intro_content) 3) intro_content = intro_meta"
  by (simp_all add: firstLine_intro Format_intro intro_meta_def)

lemma Execute_intro: "Execute example_template intro_meta = (intro_page, None)"
  by code_simp

lemma Execute_unknown_field:
  "Execute template_with_unknown_field intro_meta =
     ([], Some (ExecError ''can't evaluate field Author in type main.docMetadata''))"
  by code_simp


lemma getTemplate_unknown_field:
  "getTemplate unknown_field_env =
     (Inr template_with_unknown_field,
      [CallGetDoc tmplDocName, CallReadAll tmplDocName, CallParse unknown_field_source])"
  using getTemplate_parse [of unknown_field_env "revision (Inr unknown_field_source) 7"
      unknown_field_source]
  by simp


lemma Handler_intro_unknown_field:
  "Handler unknown_field_env (example_request ''intro'') =
     ((status_response 500,
       Some (ExecError ''can't evaluate field Author in type main.docMetadata'')),
      render_calls ''intro'' intro_content
      @ [CallGetDoc tmplDocName, CallReadAll tmplDocName, CallParse unknown_field_source,
         CallExecute intro_meta])"
  using Handler_execute_error [of unknown_field_env "example_request ''intro''"
      "revision (Inr intro_content) 3" intro_content template_with_unknown_field
      "[CallGetDoc tmplDocName, CallReadAll tmplDocName, CallParse unknown_field_source]"
      "[]" "ExecError ''can't evaluate field Author in type main.docMetadata''"]
  by (simp add: getTemplate_unknown_field Execute_unknown_field [unfolded intro_meta_def]
      firstLine_intro Format_intro intro_meta_def)

theorem C2_render_mode_witness:
  "Handler example_env (example_request ''notes.txt'') =
     ((html_response ''<b>hi</b>'', None),
      [CallGetDoc ''notes.txt'', CallReadAll ''notes.txt'', CallContains ''notes.txt'' ''.'']) \<and>
   prefix (render_calls ''intro'' intro_content @ [CallGetDoc tmplDocName])
     (snd (Handler example_env (example_request ''intro''))) \<and>
   CallToHTML intro_content \<in> set (snd (Handler example_env (example_request ''intro''))) \<and>
   CallToHTML intro_content \<in> set (snd (Handler unknown_field_env (example_request ''intro'')))"
proof -
  have n: "ds_GetDoc example_env (request_docId (example_request ''notes.txt''))
      = Inr (revision (Inr ''<b>hi</b>'') 1) \<and>
     ReadAll (revision (Inr ''<b>hi</b>'') 1) = Inr ''<b>hi</b>''"
    by (simp add: example_env_def)
  have i: "ds_GetDoc example_env (request_docId (example_request ''intro''))
      = Inr (revision (Inr intro_content) 3) \<and>
     ReadAll (revision (Inr intro_content) 3) = Inr intro_content"
    by simp
  have u: "ds_GetDoc unknown_field_env (request_docId (example_request ''intro''))
      = Inr (revision (Inr intro_content) 3)"
    by simp
  from C2_render_mode [where env = example_env and request = "example_request ''notes.txt''"
      and rev' = "revision (Inr ''<b>hi</b>'') 1" and doc = "''<b>hi</b>''"
      and docId = "''notes.txt''" and ?env2.0 = example_env
      and ?rev2.0 = "revision (Inr ''<b>hi</b>'') 1" and ?doc2.0 = "''<b>hi</b>''"] n
  have 1: "Handler example_env (example_request ''notes.txt'') =
     ((html_response ''<b>hi</b>'', None),
      [CallGetDoc ''notes.txt'', CallReadAll ''notes.txt'', CallContains ''notes.txt'' ''.''])"
    by simp
  note t = C2_render_mode [where env = example_env and request = "example_request ''intro''"
      and rev' = "revision (Inr intro_content) 3" and doc = intro_content
      and ?env2.0 = unknown_field_env and ?rev2.0 = "revision (Inr intro_content) 3"
      and ?doc2.0 = intro_content and docId = "''intro''"]
  have nd: "CHR ''.'' \<notin> set (request_docId (example_request ''intro''))"
    by simp
  note p = conjunct1 [OF mp [OF conjunct2 [OF mp [OF conjunct1 [OF conjunct2 [OF t]] i]] nd],
      unfolded example_docId]
  have 2: "prefix (render_calls ''intro'' intro_content @ [CallGetDoc tmplDocName])
     (snd (Handler example_env (example_request ''intro'')))"
    by (rule p)
  from set_mono_prefix [OF 2]
  have 3: "CallToHTML intro_content \<in> set (snd (Handler example_env (example_request ''intro'')))"
    by simp
  from i u have iu: "ds_GetDoc example_env (request_docId (example_request ''intro''))
      = Inr (revision (Inr intro_content) 3) \<and>
     ReadAll (revision (Inr intro_content) 3) = Inr intro_content \<and>
     ds_GetDoc unknown_field_env (request_docId (example_request ''intro''))
      = Inr (revision (Inr intro_content) 3) \<and>
     ReadAll (revision (Inr intro_content) 3) = Inr intro_content"
    by blast
  from mp [OF conjunct2 [OF conjunct2 [OF t]] iu] 3
  have 4: "CallToHTML intro_content
      \<in> set (snd (Handler unknown_field_env (example_request ''intro'')))"
    by blast
  from 1 2 3 4 show ?thesis
    by blast
qed

subsection \<open>The page template\<close>

text \<open>
  C8: for every templated request (its identifier has no \<open>.\<close>, its document is
  fetched and read), the page template is fetched from the document store under the
  fixed identifier \<open>doc-template.html\<close>, right after the markdown is rendered, and it
  is read and parsed in that request: the handler is a function of the store and the
  request and keeps nothing from one request to the next, so every such request makes
  these calls. A failure of the fetch, of the read or of the parse makes the handler
  respond with status 500 and the error of the failing step, and stop: its calls end with
  the failing call, and there is no composition. With a parsed template the handler
  goes on to the composition with that template.
\<close>

theorem C8_template:
  assumes "ds_GetDoc env (request_docId request) = Inr rev'"
    and "ReadAll rev' = Inr doc"
    and "CHR ''.'' \<notin> set (request_docId request)"
  shows "tmplDocName = ''doc-template.html'' \<and>
    prefix (render_calls (request_docId request) doc @ [CallGetDoc tmplDocName])
      (snd (Handler env request)) \<and>
    (ds_GetDoc env tmplDocName = Inl err \<longrightarrow>
       Handler env request =
         ((status_response 500, Some err),
          render_calls (request_docId request) doc @ [CallGetDoc tmplDocName])) \<and>
    (ds_GetDoc env tmplDocName = Inr tmplDoc \<and> ReadAll tmplDoc = Inl err \<longrightarrow>
       Handler env request =
         ((status_response 500, Some err),
          render_calls (request_docId request) doc
          @ [CallGetDoc tmplDocName, CallReadAll tmplDocName])) \<and>
    (ds_GetDoc env tmplDocName = Inr tmplDoc \<and> ReadAll tmplDoc = Inr src \<and>
     template_Parse env src = Inl err \<longrightarrow>
       Handler env request =
         ((status_response 500, Some err),
          render_calls (request_docId request) doc
          @ [CallGetDoc tmplDocName, CallReadAll tmplDocName, CallParse src])) \<and>
    (ds_GetDoc env tmplDocName = Inr tmplDoc \<and> ReadAll tmplDoc = Inr src \<and>
     template_Parse env src = Inr tmpl \<longrightarrow>
       Handler env request =
         (case template_Execute env tmpl (page_meta env rev' doc) of
            (b, Some e) \<Rightarrow>
              ((status_response 500, Some e),
               render_calls (request_docId request) doc
               @ [CallGetDoc tmplDocName, CallReadAll tmplDocName, CallParse src,
                  CallExecute (page_meta env rev' doc)])
          | (b, None) \<Rightarrow>
              ((html_response b, None),
               render_calls (request_docId request) doc
               @ [CallGetDoc tmplDocName, CallReadAll tmplDocName, CallParse src,
                  CallExecute (page_meta env rev' doc)])))"
proof (intro conjI impI)
  show "tmplDocName = ''doc-template.html''"
    by (simp add: tmplDocName_def)
next
  show "prefix (render_calls (request_docId request) doc @ [CallGetDoc tmplDocName])
      (snd (Handler env request))"
    by (rule Handler_templated_prefix [OF assms])
next
  assume "ds_GetDoc env tmplDocName = Inl err"
  then have "getTemplate env = (Inl err, [CallGetDoc tmplDocName])"
    by (rule getTemplate_fetch_error)
  from Handler_template_error [OF assms this]
  show "Handler env request =
         ((status_response 500, Some err),
          render_calls (request_docId request) doc @ [CallGetDoc tmplDocName])" .
next
  assume "ds_GetDoc env tmplDocName = Inr tmplDoc \<and> ReadAll tmplDoc = Inl err"
  then have "getTemplate env = (Inl err, [CallGetDoc tmplDocName, CallReadAll tmplDocName])"
    using getTemplate_read_error by blast
  from Handler_template_error [OF assms this]
  show "Handler env request =
         ((status_response 500, Some err),
          render_calls (request_docId request) doc
          @ [CallGetDoc tmplDocName, CallReadAll tmplDocName])" .
next
  assume a: "ds_GetDoc env tmplDocName = Inr tmplDoc \<and> ReadAll tmplDoc = Inr src \<and>
     template_Parse env src = Inl err"
  then have "getTemplate env =
      (template_Parse env src, [CallGetDoc tmplDocName, CallReadAll tmplDocName, CallParse src])"
    using getTemplate_parse by blast
  with a have "getTemplate env =
      (Inl err, [CallGetDoc tmplDocName, CallReadAll tmplDocName, CallParse src])"
    by simp
  from Handler_template_error [OF assms this]
  show "Handler env request =
         ((status_response 500, Some err),
          render_calls (request_docId request) doc
          @ [CallGetDoc tmplDocName, CallReadAll tmplDocName, CallParse src])" .
next
  assume a: "ds_GetDoc env tmplDocName = Inr tmplDoc \<and> ReadAll tmplDoc = Inr src \<and>
     template_Parse env src = Inr tmpl"
  then have "getTemplate env =
      (template_Parse env src, [CallGetDoc tmplDocName, CallReadAll tmplDocName, CallParse src])"
    using getTemplate_parse by blast
  with a have g: "getTemplate env =
      (Inr tmpl, [CallGetDoc tmplDocName, CallReadAll tmplDocName, CallParse src])"
    by simp
  show "Handler env request =
         (case template_Execute env tmpl (page_meta env rev' doc) of
            (b, Some e) \<Rightarrow>
              ((status_response 500, Some e),
               render_calls (request_docId request) doc
               @ [CallGetDoc tmplDocName, CallReadAll tmplDocName, CallParse src,
                  CallExecute (page_meta env rev' doc)])
          | (b, None) \<Rightarrow>
              ((html_response b, None),
               render_calls (request_docId request) doc
               @ [CallGetDoc tmplDocName, CallReadAll tmplDocName, CallParse src,
                  CallExecute (page_meta env rev' doc)]))"
    unfolding Handler_templated [OF assms] g by (simp split: prod.split option.split)
qed

theorem C8_template_witness:
  "Handler template_missing_env (example_request ''intro'') =
     ((status_response 500, Some NotFound),
      render_calls ''intro'' intro_content @ [CallGetDoc tmplDocName]) \<and>
   Handler template_unreadable_env (example_request ''intro'') =
     ((status_response 500, Some (ReadError ''unexpected EOF'')),
      render_calls ''intro'' intro_content @ [CallGetDoc tmplDocName, CallReadAll tmplDocName]) \<and>
   Handler template_invalid_env (example_request ''intro'') =
     ((status_response 500, Some (ParseError ''unexpected token'')),
      render_calls ''intro'' intro_content
      @ [CallGetDoc tmplDocName, CallReadAll tmplDocName,
         CallParse ''<title>{{.Title</title>'']) \<and>
   Handler example_env (example_request ''intro'') =
     ((html_response intro_page, None),
      render_calls ''intro'' intro_content
      @ [CallGetDoc tmplDocName, CallReadAll tmplDocName, CallParse example_template_source,
         CallExecute intro_meta]) \<and>
   prefix (render_calls ''intro'' intro_content @ [CallGetDoc ''doc-template.html''])
     (snd (Handler example_env (example_request ''intro'')))"
proof -
  have r: "ReadAll (revision (Inr intro_content) 3) = Inr intro_content"
    by simp
  have d: "CHR ''.'' \<notin> set (request_docId (example_request ''intro''))"
    by simp
  have a1: "ds_GetDoc template_missing_env (request_docId (example_request ''intro''))
      = Inr (revision (Inr intro_content) 3)"
    by simp
  have a2: "ds_GetDoc template_unreadable_env (request_docId (example_request ''intro''))
      = Inr (revision (Inr intro_content) 3)"
    by simp
  have a3: "ds_GetDoc template_invalid_env (request_docId (example_request ''intro''))
      = Inr (revision (Inr intro_content) 3)"
    by simp
  have a4: "ds_GetDoc example_env (request_docId (example_request ''intro''))
      = Inr (revision (Inr intro_content) 3)"
    by simp
  note t1 = C8_template [OF a1 r d, where err = NotFound, unfolded example_docId]
  note t2 = C8_template [OF a2 r d, where err = "ReadError ''unexpected EOF''"
      and tmplDoc = "revision (Inl (ReadError ''unexpected EOF'')) 7", unfolded example_docId]
  note t3 = C8_template [OF a3 r d, where err = "ParseError ''unexpected token''"
      and tmplDoc = "revision (Inr ''<title>{{.Title</title>'') 7"
      and src = "''<title>{{.Title</title>''", unfolded example_docId]
  note t4 = C8_template [OF a4 r d,
      where tmplDoc = "revision (Inr example_template_source) 7"
      and src = example_template_source and tmpl = example_template,
      unfolded example_docId]
  have 1: "Handler template_missing_env (example_request ''intro'') =
     ((status_response 500, Some NotFound),
      render_calls ''intro'' intro_content @ [CallGetDoc tmplDocName])"
    by (rule mp [OF conjunct1 [OF conjunct2 [OF conjunct2 [OF t1]]]]) simp
  have 2: "Handler template_unreadable_env (example_request ''intro'') =
     ((status_response 500, Some (ReadError ''unexpected EOF'')),
      render_calls ''intro'' intro_content @ [CallGetDoc tmplDocName, CallReadAll tmplDocName])"
    by (rule mp [OF conjunct1 [OF conjunct2 [OF conjunct2 [OF conjunct2 [OF t2]]]]]) simp
  have 3: "Handler template_invalid_env (example_request ''intro'') =
     ((status_response 500, Some (ParseError ''unexpected token'')),
      render_calls ''intro'' intro_content
      @ [CallGetDoc tmplDocName, CallReadAll tmplDocName,
         CallParse ''<title>{{.Title</title>''])"
    by (rule mp [OF conjunct1 [OF conjunct2 [OF conjunct2 [OF conjunct2 [OF conjunct2 [OF t3]]]]]])
      simp
  have "ds_GetDoc example_env tmplDocName = Inr (revision (Inr example_template_source) 7) \<and>
     ReadAll (revision (Inr example_template_source) 7) = Inr example_template_source \<and>
     template_Parse example_env example_template_source = Inr example_template"
    by simp
  from mp [OF conjunct2 [OF conjunct2 [OF conjunct2 [OF conjunct2 [OF conjunct2 [OF t4]]]]] this]
  have 4: "Handler example_env (example_request ''intro'') =
     ((html_response intro_page, None),
      render_calls ''intro'' intro_content
      @ [CallGetDoc tmplDocName, CallReadAll tmplDocName, CallParse example_template_source,
         CallExecute intro_meta])"
    by (simp add: Execute_intro [unfolded intro_meta_def] firstLine_intro Format_intro
        intro_meta_def)
  from conjunct1 [OF t4] conjunct1 [OF conjunct2 [OF t4]]
  have 5: "prefix (render_calls ''intro'' intro_content @ [CallGetDoc ''doc-template.html''])
     (snd (Handler example_env (example_request ''intro'')))"
    by (simp only:)
  from 1 2 3 4 5 show ?thesis
    by blast
qed

subsection \<open>The title of a page\<close>




subsection \<open>A first line that ends with a carriage return and a line feed\<close>




end
